theory Spec2Isabelle
  imports Complex_Main "HOL-Library.Word"
begin

unbundle bit_operations_syntax

section \<open>Streaming PNG decoder of gofpdf (png.go)\<close>

text \<open>
  The development follows \<^verbatim>\<open>png.go\<close> function by function. A Go function that
  returns \<^verbatim>\<open>(value, error)\<close> and mutates its receiver becomes a HOL function that
  returns the value, the error (\<open>None\<close> for \<^verbatim>\<open>nil\<close>) and the receiver after the call.

  The byte source \<^verbatim>\<open>io.Reader\<close> is an in-memory reader: the list of the bytes that
  are still unread. A \<^verbatim>\<open>Read\<close> delivers as many bytes as the buffer holds, up to
  those that remain, and reports \<^verbatim>\<open>io.EOF\<close> once none remain.

  A run-time panic (index or slice bounds out of range, division by zero) is the
  error value \<open>Panic\<close>; every caller in this file returns at once on an error, so the
  value travels up the way the unwinding does.
\<close>

subsection \<open>Bytes, errors and the library functions the decoder calls\<close>

type_synonym byte = "8 word"

datatype error = EOF | ErrUnexpectedEOF | FormatError string | Panic string

text \<open>\<^verbatim>\<open>io.ReadFull(r, buf)\<close> with \<^verbatim>\<open>len(buf) = n\<close>: the bytes placed in the buffer,
  the error and the source afterwards.\<close>

definition ReadFull :: "byte list \<Rightarrow> nat \<Rightarrow> byte list \<times> error option \<times> byte list" where
  "ReadFull src n =
     (if n \<le> length src then (take n src, None, drop n src)
      else if src = [] then ([], Some EOF, [])
      else (src, Some ErrUnexpectedEOF, []))"

text \<open>\<^verbatim>\<open>r.Read(buf)\<close> of the in-memory source, with \<^verbatim>\<open>len(buf) = n\<close>.\<close>

definition Read_src :: "byte list \<Rightarrow> nat \<Rightarrow> byte list \<times> error option \<times> byte list" where
  "Read_src src n =
     (if src = [] then ([], Some EOF, [])
      else (take n src, None, drop n src))"

text \<open>\<^verbatim>\<open>binary.BigEndian.Uint32(b)\<close> on a slice of four bytes:
  \<^verbatim>\<open>uint32(b[3]) | uint32(b[2])<<8 | uint32(b[1])<<16 | uint32(b[0])<<24\<close>.\<close>

definition BigEndian_Uint32 :: "byte list \<Rightarrow> 32 word" where
  "BigEndian_Uint32 b =
     ucast (b ! 3) OR push_bit 8 (ucast (b ! 2)) OR push_bit 16 (ucast (b ! 1))
       OR push_bit 24 (ucast (b ! 0))"

text \<open>A Go string constant as the bytes it holds.\<close>

definition str :: "string \<Rightarrow> byte list" where
  "str s = map (\<lambda>c. of_char c) s"

text \<open>\<^verbatim>\<open>const pngSignature = "\x89PNG\x0d\x0a\x1a\x0a"\<close>\<close>

definition pngSignature :: "byte list" where
  "pngSignature = [0x89, 0x50, 0x4E, 0x47, 0x0D, 0x0A, 0x1A, 0x0A]"

definition stateInit :: nat where "stateInit = 0"
definition stateSignature :: nat where "stateSignature = 1"
definition stateHeader :: nat where "stateHeader = 2"
definition stateAnc :: nat where "stateAnc = 3"
definition stateData :: nat where "stateData = 4"
definition stateEnd :: nat where "stateEnd = 5"

subsection \<open>The chunk reader \<^verbatim>\<open>pngStream\<close>\<close>

text \<open>
  Field \<^verbatim>\<open>p.x\<close> of the Go struct is \<open>p_x\<close>. The scratch array \<^verbatim>\<open>buf\<close> is only ever
  read in the positions the preceding \<^verbatim>\<open>next\<close> has just filled, so \<open>next_p\<close> returns
  those bytes (\<^verbatim>\<open>p.buf[:n]\<close>) and the array is not part of the state; \<^verbatim>\<open>tmp\<close>,
  \<^verbatim>\<open>off\<close> and \<^verbatim>\<open>available\<close> are never used by the code. \<^verbatim>\<open>float64\<close> values are
  reals: the conversion of a \<^verbatim>\<open>uint32\<close> is exact, and the rounding of the one
  division in \<^verbatim>\<open>parsepHYs\<close> is not modelled.
\<close>

record pngStream =
  p_r :: "byte list"
  p_state :: nat
  p_readable :: "32 word"
  p_trns :: "int list"
  p_pal :: "byte list"
  p_readdpi :: bool
  p_dpi :: real
  p_w :: "32 word"
  p_h :: "32 word"
  p_bpc :: byte
  p_ct :: byte

text \<open>\<^verbatim>\<open>func (p *pngStream) next(n int) (int, error)\<close>; every call has \<open>n \<le> 8\<close>, within
  the 768 bytes of \<^verbatim>\<open>buf\<close>.\<close>

definition next_p :: "pngStream \<Rightarrow> nat \<Rightarrow> byte list \<times> error option \<times> pngStream" where
  "next_p p n =
     (case ReadFull (p_r p) n of (bs, err, src') \<Rightarrow>
        if err = Some ErrUnexpectedEOF then ([], Some EOF, p\<lparr>p_r := src'\<rparr>)
        else (bs, err, p\<lparr>p_r := src'\<rparr>))"

definition readByte :: "pngStream \<Rightarrow> byte \<times> error option \<times> pngStream" where
  "readByte p =
     (case next_p p 1 of (bs, err, p') \<Rightarrow>
        if err \<noteq> None then (0, err, p') else (bs ! 0, None, p'))"

definition readBeUint32 :: "pngStream \<Rightarrow> 32 word \<times> error option \<times> pngStream" where
  "readBeUint32 p =
     (case next_p p 4 of (bs, err, p') \<Rightarrow>
        if err \<noteq> None then (0, err, p') else (BigEndian_Uint32 bs, None, p'))"

definition readString :: "pngStream \<Rightarrow> nat \<Rightarrow> byte list \<times> error option \<times> pngStream" where
  "readString p n =
     (case next_p p n of (bs, err, p') \<Rightarrow>
        if err \<noteq> None then ([], err, p') else (bs, None, p'))"

definition parseSignature :: "pngStream \<Rightarrow> error option \<times> pngStream" where
  "parseSignature p =
     (case readString (p\<lparr>p_state := stateSignature\<rparr>) (length pngSignature) of
        (sign, err, p') \<Rightarrow>
          if err \<noteq> None then (err, p')
          else if sign \<noteq> pngSignature then (Some (FormatError ''not a PNG buffer''), p')
          else (None, p'))"

definition parseHeader :: "pngStream \<Rightarrow> error option \<times> pngStream" where
  "parseHeader p =
     (case readBeUint32 p of (v, err, p1) \<Rightarrow>
      let p1 = p1\<lparr>p_w := v\<rparr> in
      if err \<noteq> None then (err, p1) else
     (case readBeUint32 p1 of (v, err, p2) \<Rightarrow>
      let p2 = p2\<lparr>p_h := v\<rparr> in
      if err \<noteq> None then (err, p2) else
     (case readByte p2 of (v, err, p3) \<Rightarrow>
      let p3 = p3\<lparr>p_bpc := v\<rparr> in
      if err \<noteq> None then (err, p3) else
      if p_bpc p3 > 8 then (Some (FormatError ''16-bit depth not supported in PNG file''), p3) else
     (case readByte p3 of (v, err, p4) \<Rightarrow>
      let p4 = p4\<lparr>p_ct := v\<rparr> in
      if err \<noteq> None then (err, p4) else
     (case readByte p4 of (b, err, p5) \<Rightarrow>
      if err \<noteq> None then (err, p5) else
      if b \<noteq> 0 then (Some (FormatError (CHR 0x27 # ''unknown compression method in PNG buffer'')), p5) else
     (case readByte p5 of (b, err, p6) \<Rightarrow>
      if err \<noteq> None then (err, p6) else
      if b \<noteq> 0 then (Some (FormatError (CHR 0x27 # ''unknown filter method in PNG buffer'')), p6) else
     (case readByte p6 of (b, err, p7) \<Rightarrow>
      if err \<noteq> None then (err, p7) else
      if b \<noteq> 0 then (Some (FormatError ''interlacing not supported in PNG buffer''), p7)
      else (None, p7))))))))"

text \<open>\<^verbatim>\<open>parsePalette\<close>: the slice is allocated with the declared length and zero
  filled, so a short read leaves the bytes read followed by zeros.\<close>

definition parsePalette :: "pngStream \<Rightarrow> error option \<times> pngStream" where
  "parsePalette p =
     (let n = unat (p_readable p) in
      case ReadFull (p_r p) n of (bs, err, src') \<Rightarrow>
        (err, p\<lparr>p_r := src', p_pal := bs @ replicate (n - length bs) 0\<rparr>))"

text \<open>\<^verbatim>\<open>strings.Index(string(t), "\x00")\<close>: the position of the first zero byte,
  or \<open>-1\<close>.\<close>

fun Index0 :: "byte list \<Rightarrow> int" where
  "Index0 [] = -1"
| "Index0 (b # bs) = (if b = 0 then 0 else (let i = Index0 bs in if i < 0 then -1 else i + 1))"

text \<open>\<^verbatim>\<open>parsetRNS\<close>: \<^verbatim>\<open>t[1]\<close>, \<^verbatim>\<open>t[3]\<close> and \<^verbatim>\<open>t[5]\<close> are indexed with no check of
  \<^verbatim>\<open>len(t)\<close>; Go panics on an index that is out of range.\<close>

definition parsetRNS :: "pngStream \<Rightarrow> error option \<times> pngStream" where
  "parsetRNS p =
     (let n = unat (p_readable p) in
      case ReadFull (p_r p) n of (bs, err, src') \<Rightarrow>
        let t = bs @ replicate (n - length bs) 0; p1 = p\<lparr>p_r := src'\<rparr> in
        if err \<noteq> None then (err, p1)
        else if p_ct p1 = 0 then
          (if length t \<le> 1 then (Some (Panic ''index out of range [1]''), p1)
           else (None, p1\<lparr>p_trns := [uint (t ! 1)]\<rparr>))
        else if p_ct p1 = 2 then
          (if length t \<le> 1 then (Some (Panic ''index out of range [1]''), p1)
           else if length t \<le> 3 then (Some (Panic ''index out of range [3]''), p1)
           else if length t \<le> 5 then (Some (Panic ''index out of range [5]''), p1)
           else (None, p1\<lparr>p_trns := [uint (t ! 1), uint (t ! 3), uint (t ! 5)]\<rparr>))
        else
          (let pos = Index0 t in
           if pos \<ge> 0 then (None, p1\<lparr>p_trns := [pos]\<rparr>) else (None, p1)))"

definition parsepHYs :: "pngStream \<Rightarrow> error option \<times> pngStream" where
  "parsepHYs p =
     (case readBeUint32 p of (x, err, p1) \<Rightarrow>
      if err \<noteq> None then (err, p1) else
     (case readBeUint32 p1 of (y, err, p2) \<Rightarrow>
      if err \<noteq> None then (err, p2) else
     (case readByte p2 of (units, err, p3) \<Rightarrow>
      if err \<noteq> None then (err, p3) else
      if x = y \<and> p_readdpi p3 then
        (if units = 1 then (None, p3\<lparr>p_dpi := real (unat x) / 39.3701\<rparr>)
         else (None, p3\<lparr>p_dpi := real (unat x)\<rparr>))
      else (None, p3))))"

lemma ReadFull_ok_length: "ReadFull src n = (bs, None, src') \<Longrightarrow> length bs = n"
  by (auto simp: ReadFull_def split: if_splits)

text \<open>\<^verbatim>\<open>ignoreChunk(n)\<close>: the loop reads \<^verbatim>\<open>min(n, len(p.buf))\<close> bytes at a time, with
  \<^verbatim>\<open>len(p.buf) = 768\<close>. The argument is \<^verbatim>\<open>int(p.readable)\<close>, never negative where
  \<^verbatim>\<open>int\<close> has 64 bits.\<close>

function ignoreChunk :: "pngStream \<Rightarrow> nat \<Rightarrow> error option \<times> pngStream" where
  "ignoreChunk p n =
     (if n > 0 then
        (case ReadFull (p_r p) (min n 768) of (bs, err, src') \<Rightarrow>
           if err \<noteq> None then (err, p\<lparr>p_r := src'\<rparr>)
           else ignoreChunk (p\<lparr>p_r := src'\<rparr>) (n - length bs))
      else (None, p))"
  by pat_completeness auto
termination
  by (relation "measure (\<lambda>(p, n). n)") (auto dest!: ReadFull_ok_length [OF sym])

declare ignoreChunk.simps [simp del]

text \<open>The \<^verbatim>\<open>switch ct\<close> of \<^verbatim>\<open>parseChunk\<close>. The first component says whether the
  branch returned from the function (\<^verbatim>\<open>IDAT\<close> does, before the checksum is
  consumed).\<close>

definition chunk_switch :: "byte list \<Rightarrow> pngStream \<Rightarrow> bool \<times> error option \<times> pngStream" where
  "chunk_switch ct p =
     (if ct = str ''IHDR'' then (False, parseHeader (p\<lparr>p_state := stateHeader\<rparr>))
      else if ct = str ''PLTE'' then (False, parsePalette (p\<lparr>p_state := stateAnc\<rparr>))
      else if ct = str ''tRNS'' then (False, parsetRNS (p\<lparr>p_state := stateAnc\<rparr>))
      else if ct = str ''pHYs'' then (False, parsepHYs (p\<lparr>p_state := stateAnc\<rparr>))
      else if ct = str ''IDAT'' then (True, None, p\<lparr>p_state := stateData\<rparr>)
      else if ct = str ''IEND'' then (False, None, p\<lparr>p_state := stateEnd\<rparr>)
      else (False, ignoreChunk p (unat (p_readable p))))"

definition parseChunk :: "pngStream \<Rightarrow> error option \<times> pngStream" where
  "parseChunk p =
     (case readBeUint32 p of (v, err, p1) \<Rightarrow>
      let p1 = p1\<lparr>p_readable := v\<rparr> in
      if err \<noteq> None then (err, p1) else
     (case readString p1 4 of (ct, err, p2) \<Rightarrow>
      if err \<noteq> None then (err, p2) else
     (case chunk_switch ct p2 of (returned, err, p3) \<Rightarrow>
        if returned then (err, p3)
        else if err \<noteq> None then (err, p3)
        else (case next_p p3 4 of (bs, err, p4) \<Rightarrow> (err, p4)))))"

text \<open>No call puts bytes back into the source, and a chunk frame that is parsed
  without an error takes at least its four length bytes: the two loops over
  \<open>parseChunk\<close> below end on every (finite) source.\<close>

lemma ReadFull_len: "ReadFull src n = (bs, err, src') \<Longrightarrow> length src' \<le> length src"
  by (auto simp: ReadFull_def split: if_splits)

lemma ReadFull_ok_rest: "ReadFull src n = (bs, None, src') \<Longrightarrow> length src' + n = length src"
  by (auto simp: ReadFull_def split: if_splits)

lemma next_p_len: "next_p p n = (bs, err, p') \<Longrightarrow> length (p_r p') \<le> length (p_r p)"
  by (auto simp: next_p_def split: prod.splits if_splits dest: ReadFull_len)

lemma next_p_ok_rest: "next_p p n = (bs, None, p') \<Longrightarrow> length (p_r p') + n = length (p_r p)"
  by (auto simp: next_p_def split: prod.splits if_splits dest: ReadFull_ok_rest)

lemma readByte_len: "readByte p = (b, err, p') \<Longrightarrow> length (p_r p') \<le> length (p_r p)"
  by (auto simp: readByte_def split: prod.splits if_splits dest: next_p_len)

lemma readBeUint32_len: "readBeUint32 p = (v, err, p') \<Longrightarrow> length (p_r p') \<le> length (p_r p)"
  by (auto simp: readBeUint32_def split: prod.splits if_splits dest: next_p_len)

lemma readBeUint32_ok_rest:
  "readBeUint32 p = (v, None, p') \<Longrightarrow> length (p_r p') + 4 = length (p_r p)"
  by (auto simp: readBeUint32_def split: prod.splits if_splits dest: next_p_ok_rest)

lemma readString_len: "readString p n = (s, err, p') \<Longrightarrow> length (p_r p') \<le> length (p_r p)"
  by (auto simp: readString_def split: prod.splits if_splits dest: next_p_len)

lemma parseHeader_len: "parseHeader p = (err, p') \<Longrightarrow> length (p_r p') \<le> length (p_r p)"
  unfolding parseHeader_def Let_def
  by (auto split: prod.splits if_splits dest!: readBeUint32_len readByte_len)

lemma parsePalette_len: "parsePalette p = (err, p') \<Longrightarrow> length (p_r p') \<le> length (p_r p)"
  by (auto simp: parsePalette_def Let_def split: prod.splits dest: ReadFull_len)

lemma parsetRNS_len: "parsetRNS p = (err, p') \<Longrightarrow> length (p_r p') \<le> length (p_r p)"
  by (auto simp: parsetRNS_def Let_def split: prod.splits if_splits dest: ReadFull_len)

lemma parsepHYs_len: "parsepHYs p = (err, p') \<Longrightarrow> length (p_r p') \<le> length (p_r p)"
  unfolding parsepHYs_def
  by (auto split: prod.splits if_splits dest!: readBeUint32_len readByte_len)

lemma ignoreChunk_len: "ignoreChunk p n = (err, p') \<Longrightarrow> length (p_r p') \<le> length (p_r p)"
proof (induction p n rule: ignoreChunk.induct)
  case (1 p n)
  show ?case
  proof (cases "n > 0")
    case False
    with "1.prems" show ?thesis by (simp add: ignoreChunk.simps)
  next
    case True
    obtain bs e src' where rf: "ReadFull (p_r p) (min n 768) = (bs, e, src')"
      by (cases "ReadFull (p_r p) (min n 768)") auto
    show ?thesis
    proof (cases e)
      case None
      with True rf "1.prems" have "ignoreChunk (p\<lparr>p_r := src'\<rparr>) (n - length bs) = (err, p')"
        by (simp add: ignoreChunk.simps [of p n])
      with "1.IH" [OF True rf [symmetric] refl] None
      have "length (p_r p') \<le> length src'" by simp
      with ReadFull_len [OF rf] show ?thesis by simp
    next
      case (Some x)
      with True rf "1.prems" ReadFull_len [OF rf] show ?thesis
        by (auto simp: ignoreChunk.simps [of p n])
    qed
  qed
qed

lemma chunk_switch_len:
  "chunk_switch ct p = (returned, err, p') \<Longrightarrow> length (p_r p') \<le> length (p_r p)"
  by (auto simp: chunk_switch_def split: if_splits
      dest!: parseHeader_len parsePalette_len parsetRNS_len parsepHYs_len ignoreChunk_len)

lemma parseChunk_ok_len:
  assumes "parseChunk p = (None, p')"
  shows "length (p_r p') < length (p_r p)"
proof -
  obtain v e1 p1 where r1: "readBeUint32 p = (v, e1, p1)"
    by (cases "readBeUint32 p") auto
  with assms have e1: "e1 = None"
    by (auto simp: parseChunk_def Let_def split: if_splits)
  from r1 e1 have l1: "length (p_r p1) + 4 = length (p_r p)"
    by (simp add: readBeUint32_ok_rest)
  obtain ct e2 p2 where r2: "readString (p1\<lparr>p_readable := v\<rparr>) 4 = (ct, e2, p2)"
    by (cases "readString (p1\<lparr>p_readable := v\<rparr>) 4") auto
  then have l2: "length (p_r p2) \<le> length (p_r p1)"
    by (auto dest: readString_len)
  from assms r1 e1 r2 have "length (p_r p') \<le> length (p_r p2)"
    by (auto simp: parseChunk_def Let_def split: if_splits prod.splits
        dest!: chunk_switch_len next_p_len)
  with l1 l2 show ?thesis by simp
qed

text \<open>\<^verbatim>\<open>for p.state < state { ... parseChunk ... }\<close> of \<^verbatim>\<open>parseUntil\<close>.\<close>

function parseUntil_loop :: "pngStream \<Rightarrow> nat \<Rightarrow> error option \<times> pngStream" where
  "parseUntil_loop p st =
     (if p_state p < st then
        (case parseChunk p of (err, p') \<Rightarrow>
           if err \<noteq> None then (err, p') else parseUntil_loop p' st)
      else (None, p))"
  by pat_completeness auto
termination
  by (relation "measure (\<lambda>(p, st). length (p_r p))") (auto dest!: parseChunk_ok_len [OF sym])

declare parseUntil_loop.simps [simp del]

definition parseUntil :: "pngStream \<Rightarrow> nat \<Rightarrow> error option \<times> pngStream" where
  "parseUntil p st =
     (case (if p_state p = stateInit then parseSignature p else (None, p)) of
        (err, p0) \<Rightarrow> if err \<noteq> None then (err, p0) else parseUntil_loop p0 st)"

text \<open>\<^verbatim>\<open>for p.readable == 0 { ... parseChunk ... }\<close> of \<^verbatim>\<open>Read\<close>.\<close>

function readable_loop :: "pngStream \<Rightarrow> error option \<times> pngStream" where
  "readable_loop p =
     (if p_readable p = 0 then
        (case parseChunk p of (err, p') \<Rightarrow>
           if err \<noteq> None then (err, p') else readable_loop p')
      else (None, p))"
  by pat_completeness auto
termination
  by (relation "measure (\<lambda>p. length (p_r p))") (auto dest!: parseChunk_ok_len [OF sym])

declare readable_loop.simps [simp del]

text \<open>\<^verbatim>\<open>func (p *pngStream) Read(buf []byte) (int, error)\<close> with \<^verbatim>\<open>len(buf) = n\<close>; the
  first component is \<^verbatim>\<open>buf[:m]\<close> for the count \<^verbatim>\<open>m\<close> that is returned.\<close>

definition Read_png :: "pngStream \<Rightarrow> nat \<Rightarrow> byte list \<times> error option \<times> pngStream" where
  "Read_png p n =
     (if p_state p > stateData then ([], Some EOF, p) else
      case parseUntil p stateData of (err, p1) \<Rightarrow>
      if err \<noteq> None then ([], err, p1) else
      if p_readable p1 < 0 then ([], Some (FormatError ''IDAT chunk length overflow''), p1) else
      case readable_loop p1 of (err, p2) \<Rightarrow>
      if err \<noteq> None then ([], err, p2) else
      case Read_src (p_r p2) (min n (unat (p_readable p2))) of (bs, err, src') \<Rightarrow>
      let p3 = p2\<lparr>p_r := src', p_readable := p_readable p2 - of_nat (length bs)\<rparr> in
      if p_readable p3 \<le> 0 then (case next_p p3 4 of (crc, err', p4) \<Rightarrow> (bs, err', p4))
      else (bs, err, p3))"

text \<open>\<^verbatim>\<open>&pngStream{r: r, readdpi: readdpi}\<close>: every other field has its zero value.\<close>

definition newPngStream :: "byte list \<Rightarrow> bool \<Rightarrow> pngStream" where
  "newPngStream src rd =
     \<lparr>p_r = src, p_state = stateInit, p_readable = 0, p_trns = [], p_pal = [],
      p_readdpi = rd, p_dpi = 0, p_w = 0, p_h = 0, p_bpc = 0, p_ct = 0\<rparr>"

subsection \<open>Colour space and the alpha separator\<close>

text \<open>The part of \<^verbatim>\<open>Fpdf\<close> that \<^verbatim>\<open>png.go\<close> touches: the sticky error and the PDF
  version.\<close>

record Fpdf =
  f_err :: "error option"
  f_pdfVersion :: string

text \<open>The \<^verbatim>\<open>%d\<close> verb of \<^verbatim>\<open>fmt\<close> on a value that is not negative.\<close>

fun decimal :: "nat \<Rightarrow> string" where
  "decimal n =
     (if n < 10 then [char_of (48 + n)]
      else decimal (n div 10) @ [char_of (48 + n mod 10)])"

declare decimal.simps [simp del]

definition pngColorSpace :: "Fpdf \<Rightarrow> byte \<Rightarrow> string \<times> int \<times> Fpdf" where
  "pngColorSpace f ct =
     (if ct = 0 \<or> ct = 4 then (''DeviceGray'', 1, f)
      else if ct = 2 \<or> ct = 6 then (''DeviceRGB'', 3, f)
      else if ct = 3 then (''Indexed'', 1, f)
      else ([], 1,
        f\<lparr>f_err := Some (FormatError (''unknown color type in PNG buffer: '' @ decimal (unat ct)))\<rparr>))"

text \<open>
  \<^verbatim>\<open>alphaSeparator\<close>. The upstream \<^verbatim>\<open>rc\<close> is the inflated scanline stream, a byte
  source like the one above. \<^verbatim>\<open>compress/zlib\<close> is a library outside the repository:
  a compressed stream is represented by the bytes it inflates to. \<open>a_writer\<close> holds
  the bytes written to the \<^verbatim>\<open>zlib.Writer\<close> that it has not yet passed on, \<open>a_alpha\<close>
  the bytes whose compressed form is in the buffer \<^verbatim>\<open>alpha\<close>; \<^verbatim>\<open>Flush\<close> and
  \<^verbatim>\<open>Close\<close> move the former to the latter, and a write to the buffer never fails.
  \<^verbatim>\<open>w\<close>, \<^verbatim>\<open>h\<close> come from \<^verbatim>\<open>uint32\<close> values and \<^verbatim>\<open>chs\<close> is 1 or 3, so they and
  \<^verbatim>\<open>off\<close> are natural numbers; the one product that can leave the 64 bits of
  \<^verbatim>\<open>int\<close> is \<^verbatim>\<open>a.h * a.stride\<close>, which wraps.
\<close>

record alphaSeparator =
  a_rc :: "byte list"
  a_w :: nat
  a_h :: nat
  a_chs :: nat
  a_stride :: nat
  a_alpha :: "byte list"
  a_writer :: "byte list"
  a_off :: nat

definition wrap64 :: "int \<Rightarrow> int" where
  "wrap64 x = (x + 2 ^ 63) mod 2 ^ 64 - 2 ^ 63"

definition newAlphaSeparator :: "byte list \<Rightarrow> nat \<Rightarrow> nat \<Rightarrow> nat \<Rightarrow> alphaSeparator" where
  "newAlphaSeparator rc w h chs =
     \<lparr>a_rc = rc, a_w = w, a_h = h, a_chs = chs, a_stride = 1 + (chs + 1) * w,
      a_alpha = [], a_writer = [], a_off = 0\<rparr>"

text \<open>\<^verbatim>\<open>readPaletteIndex(buf)\<close> and \<^verbatim>\<open>Read(buf)\<close> with \<^verbatim>\<open>len(buf) = cap(buf) = n\<close>;
  the first component is the part of \<^verbatim>\<open>buf\<close> that the returned count covers.\<close>

definition readPaletteIndex :: "alphaSeparator \<Rightarrow> nat \<Rightarrow> byte list \<times> error option \<times> alphaSeparator" where
  "readPaletteIndex a n =
     (if n < 1 then ([], Some (Panic ''slice bounds out of range''), a)
      else case ReadFull (a_rc a) 1 of (bs, err, rc') \<Rightarrow>
        if err \<noteq> None then ([], err, a\<lparr>a_rc := rc'\<rparr>)
        else (bs, None,
          a\<lparr>a_rc := rc', a_off := a_off a + length bs, a_writer := a_writer a @ take 1 bs\<rparr>))"

definition Read_sep :: "alphaSeparator \<Rightarrow> nat \<Rightarrow> byte list \<times> error option \<times> alphaSeparator" where
  "Read_sep a n =
     (if n = 0 then ([], None, a)
      else if int (a_off a) \<ge> wrap64 (int (a_h a) * int (a_stride a)) then ([], Some EOF, a)
      else if a_stride a = 0 then ([], Some (Panic ''integer divide by zero''), a)
      else
        let j = a_off a mod a_stride a in
        if j = 0 then readPaletteIndex a n
        else
          let c = (j - 1) mod (a_chs a + 1) in
          if a_chs a + 1 - c > n then ([], Some (Panic ''slice bounds out of range''), a)
          else case ReadFull (a_rc a) (a_chs a + 1 - c) of (bs, err, rc') \<Rightarrow>
            if err \<noteq> None then (bs, err, a\<lparr>a_rc := rc', a_off := a_off a + length bs\<rparr>)
            else (take (length bs - 1) bs, None,
              a\<lparr>a_rc := rc', a_off := a_off a + length bs,
                a_writer := a_writer a @ take 1 (drop (a_chs a - c) bs)\<rparr>))"

definition Flush :: "alphaSeparator \<Rightarrow> error option \<times> alphaSeparator" where
  "Flush a = (None, a\<lparr>a_alpha := a_alpha a @ a_writer a, a_writer := []\<rparr>)"

definition Close :: "alphaSeparator \<Rightarrow> error option \<times> alphaSeparator" where
  "Close a = (None, a\<lparr>a_alpha := a_alpha a @ a_writer a, a_writer := []\<rparr>)"

subsection \<open>Pipeline assembly \<^verbatim>\<open>parsepngstream\<close>\<close>

text \<open>The colour stream \<^verbatim>\<open>info.r\<close> is the chunk reader itself, or the recompressor
  \<^verbatim>\<open>newCompressor(astm)\<close> over the alpha separator.\<close>

datatype colorStream = RawIDAT pngStream | Recompressed alphaSeparator

text \<open>Modelled from the spec: \<^verbatim>\<open>ImageInfoType\<close> and \<^verbatim>\<open>newImageInfo\<close> are declared
  outside \<^verbatim>\<open>png.go\<close>; these are the fields that \<^verbatim>\<open>parsepngstream\<close> assigns (the
  image descriptor of section 3 of the specification). The mask buffer \<^verbatim>\<open>smask\<close> and
  the hook \<^verbatim>\<open>flush\<close> belong to the separator inside \<open>i_r\<close>: \<open>i_smask\<close> and \<open>i_flush\<close>
  say that the descriptor refers to them, and the close hooks are listed by name.\<close>

record ImageInfoType =
  i_w :: real
  i_h :: real
  i_cs :: string
  i_bpc :: int
  i_f :: string
  i_dp :: string
  i_pal :: "byte list"
  i_trns :: "int list"
  i_r :: "colorStream option"
  i_smask :: bool
  i_flush :: bool
  i_closeHooks :: "string list"

definition newImageInfo :: ImageInfoType where
  "newImageInfo =
     \<lparr>i_w = 0, i_h = 0, i_cs = [], i_bpc = 0, i_f = [], i_dp = [], i_pal = [], i_trns = [],
      i_r = None, i_smask = False, i_flush = False, i_closeHooks = []\<rparr>"

text \<open>Go compares strings byte by byte.\<close>

fun string_less :: "string \<Rightarrow> string \<Rightarrow> bool" where
  "string_less [] [] = False"
| "string_less [] (y # ys) = True"
| "string_less (x # xs) [] = False"
| "string_less (x # xs) (y # ys) =
     ((of_char x :: nat) < of_char y \<or> (x = y \<and> string_less xs ys))"

text \<open>A value a Go function returns, or the panic that unwinds it.\<close>

datatype 'a outcome = Returns 'a | Panics string

text \<open>
  \<^verbatim>\<open>func (f *Fpdf) parsepngstream(r io.Reader, readdpi bool) (info *ImageInfoType)\<close>.
  \<^verbatim>\<open>zlib.NewReader(p)\<close> belongs to the library: it is the parameter \<open>zlibNewReader\<close>,
  which gives the error of the call or the inflated content of the stream read through
  \<open>p\<close>. \<^verbatim>\<open>info\<close> is a named result: a bare \<^verbatim>\<open>return\<close> gives its current value,
  \<open>None\<close> for \<^verbatim>\<open>nil\<close>.
\<close>

definition parsepngstream ::
  "(pngStream \<Rightarrow> error + byte list) \<Rightarrow> Fpdf \<Rightarrow> byte list \<Rightarrow> bool \<Rightarrow>
     (ImageInfoType option \<times> Fpdf) outcome" where
  "parsepngstream zlibNewReader f src readdpi =
     (case parseUntil (newPngStream src readdpi) stateData of (err, p) \<Rightarrow>
     (case err of
        Some (Panic s) \<Rightarrow> Panics s
      | Some e \<Rightarrow> Returns (None, f\<lparr>f_err := Some e\<rparr>)
      | None \<Rightarrow>
     (case pngColorSpace f (p_ct p) of (colspace, colorVal, f1) \<Rightarrow>
      if f_err f1 \<noteq> None then Returns (None, f1) else
      let f2 = (if colspace = ''Indexed'' \<and> length (p_pal p) = 0
                then f1\<lparr>f_err := Some (FormatError ''missing palette in PNG buffer'')\<rparr> else f1);
          info = newImageInfo
            \<lparr>i_w := real (unat (p_w p)), i_h := real (unat (p_h p)), i_cs := colspace,
             i_bpc := uint (p_bpc p), i_f := ''FlateDecode'',
             i_dp := ''/Predictor 15 /Colors '' @ decimal (nat colorVal)
                  @ '' /BitsPerComponent '' @ decimal (unat (p_bpc p))
                  @ '' /Columns '' @ decimal (unat (p_w p)),
             i_pal := p_pal p, i_trns := p_trns p, i_r := Some (RawIDAT p)\<rparr>
      in
      if p_ct p \<ge> 4 then
        (case zlibNewReader p of
           Inl e \<Rightarrow> Returns (Some info, f2\<lparr>f_err := Some e\<rparr>)
         | Inr stm \<Rightarrow>
             let chs = (if p_ct p = 4 then 1 else 3);
                 astm = newAlphaSeparator stm (nat \<lfloor>i_w info\<rfloor>) (nat \<lfloor>i_h info\<rfloor>) chs;
                 info' = info\<lparr>i_r := Some (Recompressed astm), i_smask := True, i_flush := True,
                   i_closeHooks := i_closeHooks info @ [''stm.Close'', ''astm.Close'', ''cstm.Close'']\<rparr>;
                 f3 = (if string_less (f_pdfVersion f2) ''1.4'' then f2\<lparr>f_pdfVersion := ''1.4''\<rparr> else f2)
             in Returns (Some info', f3))
      else Returns (Some info, f2))))"

subsection \<open>Consumers of the streams\<close>

text \<open>
  A consumer of an \<^verbatim>\<open>io.Reader\<close> calls \<^verbatim>\<open>Read\<close> with a buffer of length \<open>n\<close>, keeps
  the bytes each call returns, and stops at the first error (\<^verbatim>\<open>io.EOF\<close> at the end of
  the stream). The first argument bounds the number of calls: \<open>None\<close> says that the
  bound was reached before an error was returned.
\<close>

fun readAll_png :: "nat \<Rightarrow> pngStream \<Rightarrow> nat \<Rightarrow> (byte list \<times> error \<times> pngStream) option" where
  "readAll_png 0 p n = None"
| "readAll_png (Suc fuel) p n =
     (case Read_png p n of
        (bs, Some e, p') \<Rightarrow> Some (bs, e, p')
      | (bs, None, p') \<Rightarrow>
          (case readAll_png fuel p' n of
             None \<Rightarrow> None
           | Some (out, e, p'') \<Rightarrow> Some (bs @ out, e, p'')))"

fun readAll_sep :: "nat \<Rightarrow> alphaSeparator \<Rightarrow> nat \<Rightarrow> (byte list \<times> error \<times> alphaSeparator) option" where
  "readAll_sep 0 a n = None"
| "readAll_sep (Suc fuel) a n =
     (case Read_sep a n of
        (bs, Some e, a') \<Rightarrow> Some (bs, e, a')
      | (bs, None, a') \<Rightarrow>
          (case readAll_sep fuel a' n of
             None \<Rightarrow> None
           | Some (out, e, a'') \<Rightarrow> Some (bs @ out, e, a'')))"

section \<open>Properties\<close>

subsection \<open>The errors of the chunk reader\<close>

definition overflow :: "error option" where
  "overflow = Some (FormatError ''IDAT chunk length overflow'')"

lemma ReadFull_err: "ReadFull src n = (bs, err, src') \<Longrightarrow> err \<in> {None, Some EOF, Some ErrUnexpectedEOF}"
  by (auto simp: ReadFull_def split: if_splits)

lemma next_p_err: "next_p p n = (bs, err, p') \<Longrightarrow> err \<in> {None, Some EOF}"
  by (auto simp: next_p_def split: prod.splits if_splits dest: ReadFull_err)

lemma readByte_err: "readByte p = (b, err, p') \<Longrightarrow> err \<in> {None, Some EOF}"
  by (auto simp: readByte_def split: prod.splits if_splits dest: next_p_err)

lemma readBeUint32_err: "readBeUint32 p = (v, err, p') \<Longrightarrow> err \<in> {None, Some EOF}"
  by (auto simp: readBeUint32_def split: prod.splits if_splits dest: next_p_err)

lemma readString_err: "readString p n = (s, err, p') \<Longrightarrow> err \<in> {None, Some EOF}"
  by (auto simp: readString_def split: prod.splits if_splits dest: next_p_err)

lemma parseSignature_no_overflow: "parseSignature p = (err, p') \<Longrightarrow> err \<noteq> overflow"
  by (auto simp: parseSignature_def overflow_def split: prod.splits if_splits dest: readString_err)

lemma parseHeader_no_overflow: "parseHeader p = (err, p') \<Longrightarrow> err \<noteq> overflow"
  unfolding parseHeader_def Let_def overflow_def
  by (auto split: prod.splits if_splits dest: readBeUint32_err readByte_err)

lemma parsePalette_no_overflow: "parsePalette p = (err, p') \<Longrightarrow> err \<noteq> overflow"
  by (auto simp: parsePalette_def Let_def overflow_def split: prod.splits dest: ReadFull_err)

lemma parsetRNS_no_overflow: "parsetRNS p = (err, p') \<Longrightarrow> err \<noteq> overflow"
  by (auto simp: parsetRNS_def Let_def overflow_def split: prod.splits if_splits dest: ReadFull_err)

lemma parsepHYs_no_overflow: "parsepHYs p = (err, p') \<Longrightarrow> err \<noteq> overflow"
  unfolding parsepHYs_def overflow_def
  by (auto split: prod.splits if_splits dest: readBeUint32_err readByte_err)

lemma ignoreChunk_no_overflow: "ignoreChunk p n = (err, p') \<Longrightarrow> err \<noteq> overflow"
proof (induction p n rule: ignoreChunk.induct)
  case (1 p n)
  show ?case
  proof (cases "n > 0")
    case False
    with "1.prems" show ?thesis by (simp add: ignoreChunk.simps overflow_def)
  next
    case True
    obtain bs e src' where rf: "ReadFull (p_r p) (min n 768) = (bs, e, src')"
      by (cases "ReadFull (p_r p) (min n 768)") auto
    show ?thesis
    proof (cases e)
      case None
      with True rf "1.prems" have "ignoreChunk (p\<lparr>p_r := src'\<rparr>) (n - length bs) = (err, p')"
        by (simp add: ignoreChunk.simps [of p n])
      with "1.IH" [OF True rf [symmetric] refl] None show ?thesis by simp
    next
      case (Some x)
      with True rf "1.prems" ReadFull_err [OF rf] show ?thesis
        by (auto simp: ignoreChunk.simps [of p n] overflow_def)
    qed
  qed
qed

lemma chunk_switch_no_overflow:
  "chunk_switch ct p = (returned, err, p') \<Longrightarrow> err \<noteq> overflow"
  by (auto simp: chunk_switch_def split: if_splits
      dest: parseHeader_no_overflow parsePalette_no_overflow parsetRNS_no_overflow
        parsepHYs_no_overflow ignoreChunk_no_overflow)
    (simp_all add: overflow_def)

lemma parseChunk_no_overflow:
  assumes "parseChunk p = (err, p')"
  shows "err \<noteq> overflow"
proof -
  have neq: "overflow \<noteq> None" "overflow \<noteq> Some EOF" by (simp_all add: overflow_def)
  obtain v e1 p1 where r1: "readBeUint32 p = (v, e1, p1)"
    by (cases "readBeUint32 p") auto
  show ?thesis
  proof (cases "e1 = None")
    case False
    with assms r1 have "err = e1" by (simp add: parseChunk_def Let_def)
    with readBeUint32_err [OF r1] neq show ?thesis by auto
  next
    case e1: True
    obtain ct e2 p2 where r2: "readString (p1\<lparr>p_readable := v\<rparr>) 4 = (ct, e2, p2)"
      by (cases "readString (p1\<lparr>p_readable := v\<rparr>) 4") auto
    show ?thesis
    proof (cases "e2 = None")
      case False
      with assms r1 e1 r2 have "err = e2" by (simp add: parseChunk_def Let_def)
      with readString_err [OF r2] neq show ?thesis by auto
    next
      case e2: True
      obtain ret e3 p3 where r3: "chunk_switch ct p2 = (ret, e3, p3)"
        by (cases "chunk_switch ct p2") auto
      show ?thesis
      proof (cases "ret \<or> e3 \<noteq> None")
        case True
        with assms r1 e1 r2 e2 r3 have "err = e3"
          by (auto simp: parseChunk_def Let_def split: if_splits)
        with chunk_switch_no_overflow [OF r3] show ?thesis by simp
      next
        case False
        obtain bs e4 p4 where r4: "next_p p3 4 = (bs, e4, p4)"
          by (cases "next_p p3 4") auto
        with False assms r1 e1 r2 e2 r3 have "err = e4"
          by (auto simp: parseChunk_def Let_def split: if_splits)
        with next_p_err [OF r4] neq show ?thesis by auto
      qed
    qed
  qed
qed

lemma parseUntil_loop_no_overflow: "parseUntil_loop p st = (err, p') \<Longrightarrow> err \<noteq> overflow"
proof (induction p st rule: parseUntil_loop.induct)
  case (1 p st)
  show ?case
  proof (cases "p_state p < st")
    case False
    with "1.prems" show ?thesis by (simp add: parseUntil_loop.simps overflow_def)
  next
    case True
    obtain e q where pc: "parseChunk p = (e, q)" by (cases "parseChunk p") auto
    show ?thesis
    proof (cases e)
      case None
      with True pc "1.prems" have "parseUntil_loop q st = (err, p')"
        by (simp add: parseUntil_loop.simps [of p st])
      with "1.IH" [OF True pc [symmetric]] None show ?thesis by simp
    next
      case (Some x)
      with True pc "1.prems" parseChunk_no_overflow [OF pc] show ?thesis
        by (auto simp: parseUntil_loop.simps [of p st])
    qed
  qed
qed

lemma readable_loop_no_overflow: "readable_loop p = (err, p') \<Longrightarrow> err \<noteq> overflow"
proof (induction p rule: readable_loop.induct)
  case (1 p)
  show ?case
  proof (cases "p_readable p = 0")
    case False
    with "1.prems" show ?thesis by (simp add: readable_loop.simps overflow_def)
  next
    case True
    obtain e q where pc: "parseChunk p = (e, q)" by (cases "parseChunk p") auto
    show ?thesis
    proof (cases e)
      case None
      with True pc "1.prems" have "readable_loop q = (err, p')"
        by (simp add: readable_loop.simps [of p])
      with "1.IH" [OF True pc [symmetric]] None show ?thesis by simp
    next
      case (Some x)
      with True pc "1.prems" parseChunk_no_overflow [OF pc] show ?thesis
        by (auto simp: readable_loop.simps [of p])
    qed
  qed
qed

lemma parseUntil_no_overflow: "parseUntil p st = (err, p') \<Longrightarrow> err \<noteq> overflow"
  by (auto simp: parseUntil_def split: prod.splits if_splits
      dest: parseSignature_no_overflow parseUntil_loop_no_overflow)

lemma Read_src_err: "Read_src src n = (bs, err, src') \<Longrightarrow> err \<in> {None, Some EOF}"
  by (auto simp: Read_src_def split: if_splits)

text \<open>
  Claim C10. The error "IDAT chunk length overflow" of the streamed read path cannot be
  reached: \<^verbatim>\<open>readable\<close> is an unsigned 32-bit counter, so the test
  \<^verbatim>\<open>p.readable < 0\<close> is false in every state, and no read call, on any state and with
  any buffer length, returns this error.
\<close>

theorem Read_png_overflow_unreachable:
  "\<not> p_readable p < 0 \<and>
   fst (snd (Read_png p n)) \<noteq> Some (FormatError ''IDAT chunk length overflow'')"
proof
  show "\<not> p_readable p < 0" by simp
next
  have neq: "overflow \<noteq> None" "overflow \<noteq> Some EOF" by (simp_all add: overflow_def)
  have "fst (snd (Read_png p n)) \<noteq> overflow"
    using neq unfolding Read_png_def Let_def
    by (auto split: prod.splits if_splits
        dest: parseUntil_no_overflow readable_loop_no_overflow Read_src_err next_p_err)
  then show "fst (snd (Read_png p n)) \<noteq> Some (FormatError ''IDAT chunk length overflow'')"
    by (simp add: overflow_def)
qed

theorem Read_png_overflow_unreachable_witness:
  "\<not> p_readable (newPngStream [] False) < 0 \<and>
   fst (snd (Read_png (newPngStream [] False) 1)) \<noteq> Some (FormatError ''IDAT chunk length overflow'')"
  using Read_png_overflow_unreachable [of "newPngStream [] False" 1] by simp

end
